theory Spec2Isabelle
  imports Main "HOL-Library.Char_ord" "HOL-Library.List_Lexorder" "HOL-Library.AList"
begin

section \<open>Strings as the Python code uses them\<close>

text \<open>
  A Python \<open>str\<close> is modelled as a \<^typ>\<open>string\<close>, a list of 8-bit characters read
  as the code points below 256. \<open>str.lower\<close> is the mapping of the letters below 256;
  the whitespace class is the one of \<open>str.isspace\<close> below 256. \<open>str.title\<close>, whose
  result can leave this range, is a parameter of the functions that call it.
\<close>

abbreviation NL :: char where
  "NL \<equiv> CHR 0x0A"

definition is_space :: "char \<Rightarrow> bool" where
  "is_space c =
     (let n = (of_char c :: nat)
      in (9 \<le> n \<and> n \<le> 13) \<or> (28 \<le> n \<and> n \<le> 32) \<or> n = 133 \<or> n = 160)"

definition lstrip :: "string \<Rightarrow> string" where
  "lstrip s = dropWhile is_space s"

definition rstrip :: "string \<Rightarrow> string" where
  "rstrip s = rev (dropWhile is_space (rev s))"

definition strip :: "string \<Rightarrow> string" where
  "strip s = rstrip (lstrip s)"

definition upper_letters :: string where
  "upper_letters =
     ''ABCDEFGHIJKLMNOPQRSTUVWXYZ'' @
     [CHR 0xC0, CHR 0xC1, CHR 0xC2, CHR 0xC3, CHR 0xC4, CHR 0xC5, CHR 0xC6, CHR 0xC7,
      CHR 0xC8, CHR 0xC9, CHR 0xCA, CHR 0xCB, CHR 0xCC, CHR 0xCD, CHR 0xCE, CHR 0xCF,
      CHR 0xD0, CHR 0xD1, CHR 0xD2, CHR 0xD3, CHR 0xD4, CHR 0xD5, CHR 0xD6, CHR 0xD8,
      CHR 0xD9, CHR 0xDA, CHR 0xDB, CHR 0xDC, CHR 0xDD, CHR 0xDE]"

definition lower_letters :: string where
  "lower_letters =
     ''abcdefghijklmnopqrstuvwxyz'' @
     [CHR 0xE0, CHR 0xE1, CHR 0xE2, CHR 0xE3, CHR 0xE4, CHR 0xE5, CHR 0xE6, CHR 0xE7,
      CHR 0xE8, CHR 0xE9, CHR 0xEA, CHR 0xEB, CHR 0xEC, CHR 0xED, CHR 0xEE, CHR 0xEF,
      CHR 0xF0, CHR 0xF1, CHR 0xF2, CHR 0xF3, CHR 0xF4, CHR 0xF5, CHR 0xF6, CHR 0xF8,
      CHR 0xF9, CHR 0xFA, CHR 0xFB, CHR 0xFC, CHR 0xFD, CHR 0xFE]"




definition lower_char :: "char \<Rightarrow> char" where
  "lower_char c = (case map_of (zip upper_letters lower_letters) c of Some d \<Rightarrow> d | None \<Rightarrow> c)"


definition lower :: "string \<Rightarrow> string" where
  "lower s = map lower_char s"



definition ljust :: "nat \<Rightarrow> string \<Rightarrow> string" where
  "ljust w s = s @ replicate (w - length s) (CHR '' '')"

fun startswith :: "string \<Rightarrow> string \<Rightarrow> bool" where
  "startswith s [] = True"
| "startswith [] (p # ps) = False"
| "startswith (c # cs) (p # ps) = (c = p \<and> startswith cs ps)"

text \<open>\<open>sep.join(lines)\<close>.\<close>

fun join :: "string \<Rightarrow> string list \<Rightarrow> string" where
  "join sep [] = []"
| "join sep [l] = l"
| "join sep (l # m # ls) = l @ sep @ join sep (m # ls)"

text \<open>Decimal numerals, as \<open>str(n)\<close> and the format specs \<open>{n}\<close>, \<open>%02d\<close>, \<open>%04d\<close> print them.\<close>

definition digit_char :: "nat \<Rightarrow> char" where
  "digit_char d = ''0123456789'' ! (d mod 10)"

fun str_nat :: "nat \<Rightarrow> string" where
  "str_nat n = (if n < 10 then [digit_char n] else str_nat (n div 10) @ [digit_char (n mod 10)])"

declare str_nat.simps [simp del]

definition str_int :: "int \<Rightarrow> string" where
  "str_int i = (if i < 0 then CHR ''-'' # str_nat (nat (- i)) else str_nat (nat i))"

definition zfill :: "nat \<Rightarrow> string \<Rightarrow> string" where
  "zfill w s = replicate (w - length s) (CHR ''0'') @ s"

section \<open>Dates\<close>

record date =
  year :: nat
  month :: nat
  day :: nat

definition is_leap :: "nat \<Rightarrow> bool" where
  "is_leap y = (y mod 4 = 0 \<and> (y mod 100 \<noteq> 0 \<or> y mod 400 = 0))"

definition days_in_month :: "nat \<Rightarrow> nat \<Rightarrow> nat" where
  "days_in_month y m =
     (if m = 2 then (if is_leap y then 29 else 28)
      else if m = 4 \<or> m = 6 \<or> m = 9 \<or> m = 11 then 30 else 31)"

text \<open>The values a \<open>datetime.date\<close> can hold.\<close>

definition valid_date :: "date \<Rightarrow> bool" where
  "valid_date d =
     (1 \<le> year d \<and> year d \<le> 9999 \<and> 1 \<le> month d \<and> month d \<le> 12 \<and>
      1 \<le> day d \<and> day d \<le> days_in_month (year d) (month d))"

definition isoformat :: "date \<Rightarrow> string" where
  "isoformat d =
     zfill 4 (str_nat (year d)) @ ''-'' @ zfill 2 (str_nat (month d)) @ ''-'' @
     zfill 2 (str_nat (day d))"

section \<open>Files and errors\<close>

text \<open>
  A path of the file system is missing, holds a text, holds bytes that are not UTF-8
  (\<open>Undecodable\<close>), or cannot be opened at all (\<open>Unopenable\<close>: a directory of that
  name, a permission that is denied). An exception is a value of \<open>error\<close>
  (\<open>UnicodeDecodeError\<close> is a subclass of \<open>ValueError\<close>; no handler of the code meets
  one); a function that can raise returns a sum. The platform is one where a text file
  is written without newline translation.
\<close>

datatype 'a file_state = Missing | Content 'a | Undecodable | Unopenable

datatype error = ValueError | EOFError | OSError | UnicodeDecodeError | LayoutError

definition exists :: "'a file_state \<Rightarrow> bool" where
  "exists f = (f \<noteq> Missing)"

text \<open>Reading in text mode: \<open>\r\n\<close> and a lone \<open>\r\<close> are read as \<open>\n\<close>.\<close>

fun universal_newlines :: "string \<Rightarrow> string" where
  "universal_newlines [] = []"
| "universal_newlines [c] = (if c = CHR 0x0D then [NL] else [c])"
| "universal_newlines (c # d # s) =
     (if c = CHR 0x0D
      then (if d = NL then NL # universal_newlines s else NL # universal_newlines (d # s))
      else c # universal_newlines (d # s))"

fun read_text :: "string file_state \<Rightarrow> error + string" where
  "read_text Missing = Inl OSError"
| "read_text (Content s) = Inr (universal_newlines s)"
| "read_text Undecodable = Inl UnicodeDecodeError"
| "read_text Unopenable = Inl OSError"

text \<open>\<open>open(path, "a")\<close>, the writes, close: what the file holds is not decoded.\<close>

fun append_text :: "'a list file_state \<Rightarrow> 'a list \<Rightarrow> error + 'a list file_state" where
  "append_text Missing s = Inr (Content s)"
| "append_text (Content c) s = Inr (Content (c @ s))"
| "append_text Undecodable s = Inr Undecodable"
| "append_text Unopenable s = Inl OSError"

text \<open>\<open>open(path, "w")\<close>, one \<open>write\<close>, close.\<close>

fun write_text :: "'a file_state \<Rightarrow> 'a \<Rightarrow> error + 'a file_state" where
  "write_text Unopenable s = Inl OSError"
| "write_text f s = Inr (Content s)"

section \<open>The archive\<close>

text \<open>
  A \<open>dict\<close> is an association list in insertion order with distinct keys;
  \<open>sorted(d.keys(), key=str.lower)\<close> is the stable sort of its keys.
\<close>

type_synonym attendance = "(string \<times> string) list"

definition sorted_names :: "attendance \<Rightarrow> string list" where
  "sorted_names att = sort_key lower (map fst att)"

definition lookup :: "attendance \<Rightarrow> string \<Rightarrow> string" where
  "lookup att nm = (case map_of att nm of Some t \<Rightarrow> t | None \<Rightarrow> [])"

definition colw :: nat where
  "colw = 28"

definition header :: "date \<Rightarrow> string" where
  "header d = ''=== Attendance for: '' @ isoformat d @ '' ===''"

definition section_lines :: "date \<Rightarrow> string \<Rightarrow> attendance \<Rightarrow> int \<Rightarrow> int \<Rightarrow> string list" where
  "section_lines for_date stamp att total_strength absent =
     [header for_date,
      ''Generated at: '' @ stamp,
      [],
      ljust colw ''Student Name'' @ ''Check-in Time'',
      replicate (colw + 16) (CHR ''-'')] @
     map (\<lambda>nm. ljust colw nm @ lookup att nm) (sorted_names att) @
     [replicate (colw + 16) (CHR ''-''),
      ''Total Students Present: '' @ str_nat (length att),
      ''Total Students (Class Strength): '' @ str_int total_strength,
      ''Total Absent: '' @ str_int absent,
      []]"

definition section_text :: "date \<Rightarrow> string \<Rightarrow> attendance \<Rightarrow> int \<Rightarrow> int \<Rightarrow> string" where
  "section_text for_date stamp att total_strength absent =
     join [NL] (section_lines for_date stamp att total_strength absent) @ [NL]"

definition write_archive_section ::
  "date \<Rightarrow> string \<Rightarrow> attendance \<Rightarrow> int \<Rightarrow> int \<Rightarrow> string file_state \<Rightarrow>
     error + string file_state" where
  "write_archive_section for_date stamp att total_strength absent archive =
     append_text archive (section_text for_date stamp att total_strength absent)"

text \<open>
  \<open>re.findall\<close> of the pattern
  \<open>=== Attendance for: <date> ===\n(.*?)(?=\n=== Attendance for: |\Z)\<close> with \<open>DOTALL\<close>.
  The group \<open>(.*?)\<close> is lazy: it ends at the first position where the lookahead holds,
  the separator or the end of the text.
\<close>

definition section_sep :: string where
  "section_sep = NL # ''=== Attendance for: ''"

fun body_split :: "string \<Rightarrow> string \<times> string" where
  "body_split [] = ([], [])"
| "body_split (c # cs) =
     (if startswith (c # cs) section_sep then ([], c # cs)
      else (case body_split cs of (b, r) \<Rightarrow> (c # b, r)))"

lemma body_split_length: "length (snd (body_split s)) \<le> length s"
  by (induction s) (auto split: prod.splits)

text \<open>
  The scan is from left to right: at a position where the header and its line break
  stand, the match takes the lazy body and the scan goes on after it; elsewhere the scan
  moves one character on.
\<close>

function findall_sections :: "string \<Rightarrow> string \<Rightarrow> string list" where
  "findall_sections h s =
     (if s = [] then []
      else if startswith s (h @ [NL])
      then (case body_split (drop (Suc (length h)) s) of
              (b, r) \<Rightarrow> b # findall_sections h r)
      else findall_sections h (tl s))"
  by pat_completeness auto
termination
proof (relation "measure (\<lambda>(h, s). length s)", goal_cases)
  case 1
  show ?case by simp
next
  case (2 h s b r)
  have "length (snd (body_split (drop (Suc (length h)) s))) \<le> length (drop (Suc (length h)) s)"
    by (rule body_split_length)
  moreover have "snd (body_split (drop (Suc (length h)) s)) = r"
    using 2(3) by (metis snd_conv)
  ultimately show ?case
    using 2(1) by (cases s) auto
next
  case (3 h s)
  then show ?case by (cases s) simp_all
qed

declare findall_sections.simps [simp del]

definition find_sections_by_date :: "date \<Rightarrow> string file_state \<Rightarrow> error + string list" where
  "find_sections_by_date target_date archive =
     (if \<not> exists archive then Inr []
      else (case read_text archive of
              Inl e \<Rightarrow> Inl e
            | Inr content \<Rightarrow>
                Inr (map (\<lambda>m. header target_date @ [NL] @ strip m @ [NL])
                         (findall_sections (header target_date) content))))"

section \<open>The report\<close>

text \<open>
  The story handed to the document builder: paragraphs with their style name, spacers,
  tables with their rows and style commands, page breaks. A cell of a style command is
  (column, row); a colour is its name or hex code.
\<close>

type_synonym cell = "int \<times> int"

datatype style_cmd =
  GRID cell cell
| BACKGROUND cell cell string
| VALIGN cell cell string
| ALIGN cell cell string

datatype flowable =
  Paragraph string string
| Spacer nat nat
| Table "string list list" "style_cmd list"
| PageBreak

type_synonym per_date = "(string \<times> attendance) list"

text \<open>\<open>per_date_map.get(dt, {})\<close>.\<close>

definition get_entries :: "per_date \<Rightarrow> string \<Rightarrow> attendance" where
  "get_entries per_date_map dt = (case map_of per_date_map dt of Some e \<Rightarrow> e | None \<Rightarrow> [])"

text \<open>The loop \<open>for name in roster\<close>, appending one row to \<open>table_data\<close> each time round.\<close>

fun table_rows :: "attendance \<Rightarrow> string list \<Rightarrow> string list list \<Rightarrow> string list list" where
  "table_rows date_entries [] table_data = table_data"
| "table_rows date_entries (name # roster) table_data =
     (case map_of date_entries name of
        Some time \<Rightarrow>
          table_rows date_entries roster
            (table_data @ [[name, ''Present'', (if time \<noteq> [] then time else ''-'')]])
      | None \<Rightarrow>
          table_rows date_entries roster (table_data @ [[name, ''Absent'', ''-'']]))"

text \<open>The loop \<open>for row_idx in range(1, len(table_data))\<close> that colours the rows.\<close>

definition status_cell :: "string list \<Rightarrow> string" where
  "status_cell row = (case row of [_, st, _] \<Rightarrow> st | _ \<Rightarrow> [])"

definition row_styles :: "string list list \<Rightarrow> style_cmd list" where
  "row_styles table_data =
     map (\<lambda>row_idx.
            if lower (status_cell (table_data ! row_idx)) = ''present''
            then BACKGROUND (0, int row_idx) (-1, int row_idx) ''#e6f4ea''
            else BACKGROUND (0, int row_idx) (-1, int row_idx) ''#fdecea'')
         [1 ..< length table_data]"

definition date_table :: "attendance \<Rightarrow> string list \<Rightarrow> flowable" where
  "date_table date_entries roster =
     (let table_data = table_rows date_entries roster [[''Student Name'', ''Status'', ''Check-in Time'']]
      in Table table_data
           ([GRID (0, 0) (-1, -1),
             BACKGROUND (0, 0) (-1, 0) ''#D3D3D3'',
             VALIGN (0, 0) (-1, -1) ''MIDDLE'',
             ALIGN (1, 1) (1, -1) ''CENTER'',
             ALIGN (2, 1) (2, -1) ''CENTER''] @ row_styles table_data))"

text \<open>
  What the document library decides is a parameter: \<open>markup_ok text\<close> says whether
  \<open>Paragraph\<close> accepts the text as markup (it raises \<open>ValueError\<close> otherwise), and
  \<open>build story\<close> is the exception that \<open>doc.build\<close> raises on the story, if any. The
  title, the generation line and the notice are fixed plain texts (\<open>now\<close> is a time stamp:
  digits, \<open>-\<close>, \<open>:\<close> and a blank), which the library accepts; the heading of a date
  carries the date text as it was read.
\<close>

definition heading :: "nat \<Rightarrow> string \<Rightarrow> string" where
  "heading idx dt = str_nat idx @ ''. Date: '' @ dt"

text \<open>
  The loop \<open>for idx, dt in enumerate(ordered_dates, start=1)\<close>: the story so far, and the
  exception that ended the loop, if any.
\<close>

fun date_blocks ::
  "(string \<Rightarrow> bool) \<Rightarrow> nat \<Rightarrow> string list \<Rightarrow> string list \<Rightarrow> per_date \<Rightarrow> flowable list \<Rightarrow>
     flowable list \<times> error option" where
  "date_blocks markup_ok idx [] roster per_date_map story = (story, None)"
| "date_blocks markup_ok idx (dt # dates) roster per_date_map story =
     (if \<not> markup_ok (heading idx dt) then (story, Some ValueError)
      else date_blocks markup_ok (Suc idx) dates roster per_date_map
             (story @
              [Paragraph (heading idx dt) ''Heading2'',
               Spacer 1 6,
               date_table (get_entries per_date_map dt) roster,
               Spacer 1 12] @
              (if idx mod 3 = 0 then [PageBreak] else [])))"

text \<open>
  \<open>make_colored_pdf\<close>: the story as far as it was built, and either the exception that
  left the function or the line that is printed.
\<close>

definition make_colored_pdf ::
  "(string \<Rightarrow> bool) \<Rightarrow> (flowable list \<Rightarrow> error option) \<Rightarrow> string \<Rightarrow> string list \<Rightarrow> string list \<Rightarrow>
     per_date \<Rightarrow> flowable list \<times> (error + string)" where
  "make_colored_pdf markup_ok build now ordered_dates roster per_date_map =
     (let story =
            [Paragraph ''Full Date-wise Attendance List'' ''Title'',
             Paragraph (''Generated at: '' @ now) ''Normal'',
             Spacer 1 12]
      in if ordered_dates = [] \<or> roster = []
         then (let story1 = story @ [Paragraph ''No attendance data found in CSV or archive.'' ''Normal'']
               in (story1,
                   case build story1 of
                     Some e \<Rightarrow> Inl e
                   | None \<Rightarrow> Inr ''PDF generated (but no data found).''))
         else (case date_blocks markup_ok 1 ordered_dates roster per_date_map story of
                 (story1, Some e) \<Rightarrow> (story1, Inl e)
               | (story1, None) \<Rightarrow>
                   (story1,
                    case build story1 of
                      Some e \<Rightarrow> Inl e
                    | None \<Rightarrow> Inr ''Colored PDF created'')))"

text \<open>The tables of a story, and their rows.\<close>

fun is_table :: "flowable \<Rightarrow> bool" where
  "is_table (Table rows styles) = True"
| "is_table _ = False"


definition tables :: "flowable list \<Rightarrow> flowable list" where
  "tables story = filter is_table story"

section \<open>Parsing times and dates\<close>

text \<open>
  \<open>datetime.strptime\<close> turns the format into a regular expression and matches it at the
  start of the text, with backtracking; an alternation tries its branches in order. A
  matcher here returns every way to match, best first, each with the text that is left;
  the first one is the match the regular expression engine finds.
\<close>

type_synonym 'a matcher = "string \<Rightarrow> ('a \<times> string) list"

definition m_char :: "(char \<Rightarrow> bool) \<Rightarrow> char matcher" where
  "m_char P s = (case s of [] \<Rightarrow> [] | c # r \<Rightarrow> if P c then [(c, r)] else [])"

definition m_alt :: "'a matcher \<Rightarrow> 'a matcher \<Rightarrow> 'a matcher" where
  "m_alt p q s = p s @ q s"

definition m_then :: "'a matcher \<Rightarrow> ('a \<Rightarrow> 'b matcher) \<Rightarrow> 'b matcher" where
  "m_then p f s = concat (map (\<lambda>(a, r). f a r) (p s))"

definition m_ret :: "'a \<Rightarrow> 'a matcher" where
  "m_ret a s = [(a, s)]"


text \<open>A digit between \<open>lo\<close> and \<open>hi\<close>, and its value.\<close>

definition digit_between :: "nat \<Rightarrow> nat \<Rightarrow> char \<Rightarrow> bool" where
  "digit_between lo hi c = (48 + lo \<le> (of_char c :: nat) \<and> (of_char c :: nat) \<le> 48 + hi)"

definition digit_val :: "char \<Rightarrow> nat" where
  "digit_val c = of_char c - 48"

definition m_digit :: "nat \<Rightarrow> nat \<Rightarrow> nat matcher" where
  "m_digit lo hi = m_then (m_char (digit_between lo hi)) (\<lambda>c. m_ret (digit_val c))"

definition m_two :: "nat matcher \<Rightarrow> nat matcher \<Rightarrow> nat matcher" where
  "m_two p q = m_then p (\<lambda>a. m_then q (\<lambda>b. m_ret (10 * a + b)))"

definition m_lit :: "char \<Rightarrow> unit matcher" where
  "m_lit c = m_then (m_char (\<lambda>x. x = c)) (\<lambda>_. m_ret ())"






definition re_Y :: "nat matcher" where
  "re_Y = m_then (m_digit 0 9) (\<lambda>a. m_then (m_digit 0 9) (\<lambda>b. m_then (m_digit 0 9) (\<lambda>c.
            m_then (m_digit 0 9) (\<lambda>d. m_ret (1000 * a + 100 * b + 10 * c + d)))))"

definition re_m :: "nat matcher" where
  "re_m = m_alt (m_two (m_digit 1 1) (m_digit 0 2))
            (m_alt (m_two (m_digit 0 0) (m_digit 1 9)) (m_digit 1 9))"

definition re_d :: "nat matcher" where
  "re_d = m_alt (m_two (m_digit 3 3) (m_digit 0 1))
            (m_alt (m_two (m_digit 1 2) (m_digit 0 9))
               (m_alt (m_two (m_digit 0 0) (m_digit 1 9))
                  (m_alt (m_digit 1 9) (m_then (m_lit (CHR '' '')) (\<lambda>_. m_digit 1 9)))))"

text \<open>
  \<open>strptime\<close>: no match is a \<open>ValueError\<close>, and so is a match that leaves text
  unconverted.
\<close>

definition full_match :: "'a matcher \<Rightarrow> string \<Rightarrow> error + 'a" where
  "full_match p s =
     (case p s of
        [] \<Rightarrow> Inl ValueError
      | (a, r) # _ \<Rightarrow> if r \<noteq> [] then Inl ValueError else Inr a)"








text \<open>\<open>datetime.strptime(s, "%Y-%m-%d").date()\<close>.\<close>

definition fmt_Y_m_d :: "date matcher" where
  "fmt_Y_m_d =
     m_then re_Y (\<lambda>y. m_then (m_lit (CHR ''-'')) (\<lambda>_. m_then re_m (\<lambda>m.
       m_then (m_lit (CHR ''-'')) (\<lambda>_. m_then re_d (\<lambda>d.
         m_ret \<lparr>year = y, month = m, day = d\<rparr>)))))"

definition strptime_date :: "string \<Rightarrow> error + date" where
  "strptime_date s =
     (case full_match fmt_Y_m_d s of
        Inl e \<Rightarrow> Inl e
      | Inr d \<Rightarrow> if valid_date d then Inr d else Inl ValueError)"



section \<open>The console\<close>

text \<open>
  The standard input is the list of the lines still to be read; \<open>input(prompt)\<close> prints
  the prompt and takes the first line, and raises \<open>EOFError\<close> when none is left.
  The standard output is the list of the texts printed so far (the emoji that start some
  messages are left out). A loop that prompts again is a recursion on the input.
\<close>







type_synonym 'a console = "error + ('a \<times> string list \<times> string list)"


fun ask_yes_no :: "string \<Rightarrow> string list \<Rightarrow> string list \<Rightarrow> bool console" where
  "ask_yes_no prompt [] out = Inl EOFError"
| "ask_yes_no prompt (l # ins) out =
     Inr (lower (strip l) = ''y'' \<or> lower (strip l) = ''yes'', ins, out @ [prompt])"

section \<open>Recording attendance\<close>













section \<open>Querying by date\<close>

text \<open>
  \<open>query_by_date_flow\<close>; the result is the input left, the output and the export file.
  The call of \<open>find_sections_by_date\<close> stands outside every \<open>try\<close>.
\<close>

fun found_lines :: "string \<Rightarrow> nat \<Rightarrow> string list \<Rightarrow> string list" where
  "found_lines iso_date idx [] = []"
| "found_lines iso_date idx (sec # sections) =
     ([NL] @ ''--- Found record #'' @ str_nat idx @ '' for '' @ iso_date @ '' ---'') # sec #
     found_lines iso_date (Suc idx) sections"

definition query_by_date_flow ::
  "date \<Rightarrow> string list \<Rightarrow> string list \<Rightarrow> string file_state \<Rightarrow> string file_state \<Rightarrow>
     error + (string list \<times> string list \<times> string file_state)" where
  "query_by_date_flow today ins out archive export_file =
     (case ins of
        [] \<Rightarrow> Inl EOFError
      | l # ins0 \<Rightarrow>
          let out0 = out @ [[NL] @ ''--- Query Attendance by Date ---'',
                            ''Enter date to query (YYYY-MM-DD) or '' @ [CHR 0x27] @ ''today'' @
                              [CHR 0x27] @ '': ''];
              date_inp = strip l
          in (case (if lower date_inp = ''today'' then Inr today else strptime_date date_inp) of
                Inl e \<Rightarrow> Inr (ins0, out0 @ [''Invalid date format. Please use YYYY-MM-DD.''], export_file)
              | Inr target_date \<Rightarrow>
                  (case find_sections_by_date target_date archive of
                     Inl e \<Rightarrow> Inl e
                   | Inr sections \<Rightarrow>
                       if sections = []
                       then Inr (ins0,
                                 out0 @ [''No records found for '' @ isoformat target_date @ ''.''],
                                 export_file)
                       else
                         (case ask_yes_no
                                 ([NL] @ ''Do you want to export the above date'' @ [CHR 0x27] @
                                  ''s log into '' @ [CHR 0x27] @ ''student_attendance_record.txt'' @
                                  [CHR 0x27] @ ''? (this will OVERWRITE that file): '')
                                 ins0 (out0 @ found_lines (isoformat target_date) 1 sections) of
                            Inl e \<Rightarrow> Inl e
                          | Inr (yes, ins1, out1) \<Rightarrow>
                              if yes
                              then (case write_text export_file (join [NL] sections) of
                                      Inr f \<Rightarrow> Inr (ins1, out1 @ [[NL] @ ''Export successful''], f)
                                    | Inl e \<Rightarrow> Inr (ins1, out1 @ [''Export failed''], export_file))
                              else Inr (ins1, out1 @ [''Export skipped.''], export_file)))))"

section \<open>Properties\<close>

text \<open>
  C6. \<open>write_archive_section\<close> is a pure append: on an archive that holds the text
  \<open>prior\<close> it leaves the archive holding \<open>prior\<close> followed by the new block, and nothing
  else.
\<close>

theorem write_archive_section_appends:
  "write_archive_section for_date stamp att total_strength absent (Content prior) =
     Inr (Content (prior @ section_text for_date stamp att total_strength absent))"
  by (simp add: write_archive_section_def)

subsection \<open>The report\<close>


lemma tables_date_blocks:
  "filter is_table (fst (date_blocks markup_ok idx dates roster m story)) =
     filter is_table story @
     map (\<lambda>(i, dt). date_table (get_entries m dt) roster)
       (takeWhile (\<lambda>(i, dt). markup_ok (heading i dt)) (enumerate idx dates))"
  by (induction dates arbitrary: idx story) (auto simp: date_table_def Let_def)


lemma fst_make_colored_pdf:
  "fst (make_colored_pdf markup_ok build now ordered_dates roster per_date_map) =
     (if ordered_dates = [] \<or> roster = []
      then [Paragraph ''Full Date-wise Attendance List'' ''Title'',
            Paragraph (''Generated at: '' @ now) ''Normal'',
            Spacer 1 12,
            Paragraph ''No attendance data found in CSV or archive.'' ''Normal'']
      else fst (date_blocks markup_ok 1 ordered_dates roster per_date_map
                  [Paragraph ''Full Date-wise Attendance List'' ''Title'',
                   Paragraph (''Generated at: '' @ now) ''Normal'',
                   Spacer 1 12]))"
  by (cases "date_blocks markup_ok 1 ordered_dates roster per_date_map
                  [Paragraph ''Full Date-wise Attendance List'' ''Title'',
                   Paragraph (''Generated at: '' @ now) ''Normal'',
                   Spacer 1 12]")
     (simp add: make_colored_pdf_def Let_def split: option.splits)

text \<open>
  C8. The tables of the story (their rows and their style commands, in order) depend on
  the dates, the roster, the per-date mapping and the document library only: two calls on
  the same inputs, at whatever two readings of the clock, build the same tables (and the
  library refuses a heading in the one exactly when it does in the other).
\<close>

theorem render_deterministic:
  "tables (fst (make_colored_pdf markup_ok build now1 ordered_dates roster per_date_map)) =
   tables (fst (make_colored_pdf markup_ok build now2 ordered_dates roster per_date_map))"
  by (simp add: fst_make_colored_pdf tables_date_blocks tables_def)




subsection \<open>Parsing times\<close>



















subsection \<open>The recording flow\<close>
















subsection \<open>The query flow\<close>

text \<open>
  C9. A handler of the attendance menu does not catch every failure: when the archive
  exists and cannot be read (its bytes do not decode, or it cannot be opened), the
  exception of \<open>find_sections_by_date\<close> leaves \<open>query_by_date_flow\<close>, whatever follows
  on the input; the menu loop that called the handler has no \<open>try\<close> either.
\<close>

theorem query_read_failure_escapes:
  "query_by_date_flow today (''2025-11-20'' # ins) out Undecodable export_file = Inl UnicodeDecodeError \<and>
   query_by_date_flow today (''2025-11-20'' # ins) out Unopenable export_file = Inl OSError"
proof -
  have "lower (strip ''2025-11-20'') \<noteq> ''today''" by code_simp
  moreover have "strptime_date (strip ''2025-11-20'') = Inr \<lparr>year = 2025, month = 11, day = 20\<rparr>"
    by code_simp
  ultimately show ?thesis
    by (simp add: query_by_date_flow_def Let_def find_sections_by_date_def exists_def)
qed

text \<open>
  C10. When the archive file does not exist, \<open>find_sections_by_date\<close> returns the empty
  list and raises nothing, whatever the target date; a query for a date then prints that
  no records were found for it, and returns to the menu.
\<close>

theorem find_sections_missing_archive:
  "find_sections_by_date target_date Missing = Inr [] \<and>
   ((if lower (strip l) = ''today'' then Inr today else strptime_date (strip l)) = Inr target_date \<longrightarrow>
      query_by_date_flow today (l # ins) out Missing export_file =
        Inr (ins,
             out @ [[NL] @ ''--- Query Attendance by Date ---'',
                    ''Enter date to query (YYYY-MM-DD) or '' @ [CHR 0x27] @ ''today'' @ [CHR 0x27] @ '': '',
                    ''No records found for '' @ isoformat target_date @ ''.''],
             export_file))"
  by (simp add: query_by_date_flow_def Let_def find_sections_by_date_def exists_def)

theorem find_sections_missing_archive_witness:
  "strptime_date (strip ''2025-11-20'') = Inr \<lparr>year = 2025, month = 11, day = 20\<rparr> \<and>
   lower (strip ''2025-11-20'') \<noteq> ''today'' \<and>
   find_sections_by_date \<lparr>year = 2025, month = 11, day = 20\<rparr> Missing = Inr [] \<and>
   query_by_date_flow \<lparr>year = 2025, month = 11, day = 21\<rparr> [''2025-11-20''] [] Missing Missing =
     Inr ([], [[NL] @ ''--- Query Attendance by Date ---'',
               ''Enter date to query (YYYY-MM-DD) or '' @ [CHR 0x27] @ ''today'' @ [CHR 0x27] @ '': '',
               ''No records found for 2025-11-20.''], Missing)"
proof -
  have a: "lower (strip ''2025-11-20'') \<noteq> ''today''" by code_simp
  have b: "strptime_date (strip ''2025-11-20'') = Inr \<lparr>year = 2025, month = 11, day = 20\<rparr>"
    by code_simp
  have c: "isoformat \<lparr>year = 2025, month = 11, day = 20\<rparr> = ''2025-11-20''" by code_simp
  show ?thesis
    using a b c
      find_sections_missing_archive [of "\<lparr>year = 2025, month = 11, day = 20\<rparr>" "''2025-11-20''"
        "\<lparr>year = 2025, month = 11, day = 21\<rparr>" "[]" "[]" Missing]
    by simp
qed

end
